theory Spec2Isabelle
  imports Main
begin

section \<open>The Vitest setup modules\<close>

text \<open>
  The repository's files are two versions of the Vitest setup module: the current
  \<^verbatim>\<open>src/vitest.setup.ts\<close> and its predecessor (\<^verbatim>\<open>src/unnamed/part_001\<close>). Both run
  their top-level statements once when the module is loaded; the statements read and
  write \<^verbatim>\<open>process.env\<close> and may print one line. Both export an empty
  \<^verbatim>\<open>async function setup()\<close>.
\<close>

subsection \<open>The process: environment and console\<close>

text \<open>
  \<^verbatim>\<open>process.env\<close> maps variable names to strings; reading a name that is not set gives
  \<^verbatim>\<open>undefined\<close>, here \<open>None\<close>. The console is the list of lines printed so far.
\<close>

type_synonym environ = "string \<rightharpoonup> string"

record process =
  env :: environ
  console :: "string list"

text \<open>
  JavaScript's truthiness of what a read of \<^verbatim>\<open>process.env\<close> returns: \<^verbatim>\<open>undefined\<close> and
  the empty string are falsy, every other string is truthy. The guards of the modules
  are \<^verbatim>\<open>!process.env.X\<close>, that is \<open>\<not> truthy (e X)\<close>.
\<close>

definition truthy :: "string option \<Rightarrow> bool" where
  "truthy v = (case v of None \<Rightarrow> False | Some s \<Rightarrow> s \<noteq> [])"

datatype js_error = TypeError

text \<open>
  The outcome of loading a module: it ran to its end, or a statement threw and the load
  stopped there; either way the process is left in some state.
\<close>

datatype completion = Completed process | Threw js_error process

subsection \<open>Property descriptors and the host's definition of a property\<close>

text \<open>
  The second argument of \<^verbatim>\<open>Object.defineProperty\<close>: each attribute is stated or left
  out. (The modules pass data descriptors only, so \<^verbatim>\<open>get\<close> and \<^verbatim>\<open>set\<close> are not modelled.)
\<close>

record descriptor =
  d_value :: "string option"
  d_writable :: "bool option"
  d_enumerable :: "bool option"
  d_configurable :: "bool option"

text \<open>
  \<^verbatim>\<open>process.env\<close> is an object of the host (the JavaScript runtime), and what
  \<^verbatim>\<open>Object.defineProperty\<close> does on it is the host's decision, not the repository's.
  The module is therefore modelled over any such operation: it gets the environment,
  the name and the descriptor, and either throws or returns the environment it leaves.
\<close>

type_synonym define_property = "environ \<Rightarrow> string \<Rightarrow> descriptor \<Rightarrow> js_error + environ"

text \<open>
  Two hosts. On an ordinary object the definition stores the descriptor's value (the
  attributes it creates are invisible to reads). Node's \<^verbatim>\<open>process.env\<close> is not an
  ordinary object: it accepts only a data descriptor that states
  \<^verbatim>\<open>configurable\<close>, \<^verbatim>\<open>writable\<close> and \<^verbatim>\<open>enumerable\<close>, all true, and throws a
  \<^verbatim>\<open>TypeError\<close> (\<^verbatim>\<open>ERR_INVALID_OBJECT_DEFINE_PROPERTY\<close>: "'process.env' only accepts a
  configurable, writable, and enumerable data descriptor") for any other. The
  repository's workflows run the tests on Node 18.x and 20.x.
\<close>

definition ordinary_defineProperty :: define_property where
  "ordinary_defineProperty e k d =
     (case d_value d of Some v \<Rightarrow> Inr (e(k \<mapsto> v)) | None \<Rightarrow> Inr e)"

definition node_env_defineProperty :: define_property where
  "node_env_defineProperty e k d =
     (case d_value d of
        Some v \<Rightarrow>
          (if d_writable d = Some True \<and> d_enumerable d = Some True
              \<and> d_configurable d = Some True
           then Inr (e(k \<mapsto> v)) else Inl TypeError)
      | None \<Rightarrow> Inl TypeError)"

subsection \<open>The current module: \<^verbatim>\<open>src/vitest.setup.ts\<close>\<close>

text \<open>
  Lines 7 to 9:
  \<^verbatim>\<open>if (!process.env.NODE_ENV) {
    Object.defineProperty(process.env, 'NODE_ENV', { value: 'test', writable: true });
  }\<close>
\<close>

definition node_env_descriptor :: descriptor where
  "node_env_descriptor =
     \<lparr>d_value = Some ''test'', d_writable = Some True,
      d_enumerable = None, d_configurable = None\<rparr>"

definition node_env_guard :: "define_property \<Rightarrow> environ \<Rightarrow> js_error + environ" where
  "node_env_guard defineProperty e =
     (if \<not> truthy (e ''NODE_ENV'')
      then defineProperty e ''NODE_ENV'' node_env_descriptor
      else Inr e)"

text \<open>
  Lines 11 to 13:
  \<^verbatim>\<open>if (!process.env.JWT_SECRET) {
    process.env.JWT_SECRET = 'test-secret-key-for-testing';
  }\<close>
\<close>

definition jwt_secret_guard :: "environ \<Rightarrow> environ" where
  "jwt_secret_guard e =
     (if \<not> truthy (e ''JWT_SECRET'')
      then e(''JWT_SECRET'' \<mapsto> ''test-secret-key-for-testing'')
      else e)"

text \<open>
  Lines 16 to 18 (and lines 11 to 13 of the predecessor):
  \<^verbatim>\<open>if (!process.env.ANTHROPIC_API_KEY) {
    process.env.ANTHROPIC_API_KEY = '';
  }\<close>
\<close>

definition anthropic_api_key_guard :: "environ \<Rightarrow> environ" where
  "anthropic_api_key_guard e =
     (if \<not> truthy (e ''ANTHROPIC_API_KEY'')
      then e(''ANTHROPIC_API_KEY'' \<mapsto> '''')
      else e)"

text \<open>
  Lines 21 to 23 (and lines 16 to 18 of the predecessor):
  \<^verbatim>\<open>if (process.env.CI) {
    console.log('Running in CI environment');
  }\<close>
\<close>

definition log_ci :: "process \<Rightarrow> process" where
  "log_ci p =
     (if truthy (env p ''CI'')
      then p\<lparr>console := console p @ [''Running in CI environment'']\<rparr>
      else p)"

text \<open>
  Loading the module runs the four statements in order. A throw at lines 7 to 9 ends
  the load before anything has been assigned.
\<close>

definition vitest_setup_module :: "define_property \<Rightarrow> process \<Rightarrow> completion" where
  "vitest_setup_module defineProperty p =
     (case node_env_guard defineProperty (env p) of
        Inl err \<Rightarrow> Threw err p
      | Inr e \<Rightarrow>
          Completed (log_ci (p\<lparr>env := anthropic_api_key_guard (jwt_secret_guard e)\<rparr>)))"

text \<open>
  Lines 26 to 28, the default export: \<^verbatim>\<open>export default async function setup() { }\<close>.
  Its body is empty, so a call leaves the process as it is.
\<close>

definition default_setup :: "process \<Rightarrow> process" where
  "default_setup p = p"

subsection \<open>The predecessor: \<^verbatim>\<open>src/unnamed/part_001\<close>\<close>

text \<open>
  Lines 7 and 8 assign without a guard:
  \<^verbatim>\<open>process.env.NODE_ENV = 'test';
  process.env.JWT_SECRET = 'test-secret-key-for-testing';\<close>
  the rest is as in the current module. An assignment to \<^verbatim>\<open>process.env\<close> does not
  throw.
\<close>

definition part_001_module :: "process \<Rightarrow> completion" where
  "part_001_module p =
     Completed (log_ci (p\<lparr>env := anthropic_api_key_guard
       ((env p)(''NODE_ENV'' \<mapsto> ''test'',
                ''JWT_SECRET'' \<mapsto> ''test-secret-key-for-testing''))\<rparr>))"

subsection \<open>The loader\<close>


section \<open>Path normalisation of the virtual file system\<close>

text \<open>
  The source of the virtual file system (VFS) is not among the repository's files covered
  here. The specification describes its path normalisation (section 4.1) as "a pure
  function applied to every input path: ensure a single leading slash, strip trailing
  slash (except root), collapse consecutive slashes", and the paths it yields
  (section 3) as "absolute, normalized, leading slash, no trailing slash, no duplicate
  slashes". The three steps are modelled one by one. The specification names them
  without saying in which order they run; they are composed so that the result is a
  path of section 3: the slashes are collapsed before the trailing one is stripped.
\<close>

text \<open>
  Modelled from the spec: the step "ensure a single leading slash" of the VFS path
  normalisation (the VFS source is missing): a path that does not start with a slash
  gets one in front. (A run of leading slashes is reduced to one by the collapsing
  step.)
\<close>

definition ensure_leading_slash :: "string \<Rightarrow> string" where
  "ensure_leading_slash p =
     (if p \<noteq> [] \<and> hd p = CHR ''/'' then p else CHR ''/'' # p)"

text \<open>
  Modelled from the spec: the step "collapse consecutive slashes" of the VFS path
  normalisation (the VFS source is missing): every run of slashes becomes one slash.
\<close>

fun collapse_slashes :: "string \<Rightarrow> string" where
  "collapse_slashes (a # b # cs) =
     (if a = CHR ''/'' \<and> b = CHR ''/'' then collapse_slashes (b # cs)
      else a # collapse_slashes (b # cs))"
| "collapse_slashes cs = cs"

text \<open>
  Modelled from the spec: the step "strip trailing slash (except root)" of the VFS path
  normalisation (the VFS source is missing): a path other than the root \<open>''/''\<close> that
  ends in a slash loses that slash.
\<close>

definition strip_trailing_slash :: "string \<Rightarrow> string" where
  "strip_trailing_slash p =
     (if p \<noteq> ''/'' \<and> p \<noteq> [] \<and> last p = CHR ''/'' then butlast p else p)"

text \<open>
  Modelled from the spec: the VFS path normalisation function \<^verbatim>\<open>normalize\<close> (the VFS
  source is missing): the leading slash is ensured, runs of slashes are collapsed, and
  the trailing slash that may be left is stripped.
\<close>

definition normalize_path :: "string \<Rightarrow> string" where
  "normalize_path p = strip_trailing_slash (collapse_slashes (ensure_leading_slash p))"

text \<open>
  An auxiliary predicate for the proofs: no two slashes stand next to each other.
\<close>

fun single_slashes :: "string \<Rightarrow> bool" where
  "single_slashes (a # b # cs) =
     (\<not> (a = CHR ''/'' \<and> b = CHR ''/'') \<and> single_slashes (b # cs))"
| "single_slashes cs = True"

text \<open>
  Modelled from the spec: the paths of section 3 of the specification (the VFS source
  is missing): a leading slash, no duplicate slashes, and no trailing slash except on
  the root.
\<close>

definition normalized :: "string \<Rightarrow> bool" where
  "normalized p \<longleftrightarrow>
     p \<noteq> [] \<and> hd p = CHR ''/'' \<and> single_slashes p \<and> (p = ''/'' \<or> last p \<noteq> CHR ''/'')"

section \<open>Properties of the setup modules\<close>

subsection \<open>Reading the environment\<close>

lemma env_log_ci: "env (log_ci p) = env p"
  by (simp add: log_ci_def)

lemma truthy_Some: "truthy (Some s) = (s \<noteq> [])"
  by (simp add: truthy_def)

lemma truthy_None: "\<not> truthy None"
  by (simp add: truthy_def)

lemma truthy_iff: "truthy v = (\<exists>s. v = Some s \<and> s \<noteq> [])"
  by (cases v) (simp_all add: truthy_def)

subsection \<open>Loading does not disturb what is set\<close>

text \<open>
  C8: loading \<^verbatim>\<open>src/vitest.setup.ts\<close> is non-destructive and idempotent over the process
  environment. In every environment in which \<^verbatim>\<open>NODE_ENV\<close>, \<^verbatim>\<open>JWT_SECRET\<close> and
  \<^verbatim>\<open>ANTHROPIC_API_KEY\<close> are set to non-empty values, the load runs to its end and leaves
  the whole environment, hence each of the three, as it was; a second load after the
  first changes nothing either. This holds whatever the host does in
  \<^verbatim>\<open>Object.defineProperty\<close>, which is never reached.
\<close>

theorem vitest_setup_module_keeps_set_variables:
  assumes "env p ''NODE_ENV'' = Some a" and "a \<noteq> []"
    and "env p ''JWT_SECRET'' = Some b" and "b \<noteq> []"
    and "env p ''ANTHROPIC_API_KEY'' = Some c" and "c \<noteq> []"
  shows "\<exists>p1 p2.
      vitest_setup_module defineProperty p = Completed p1 \<and> env p1 = env p \<and>
      env p1 ''NODE_ENV'' = Some a \<and> env p1 ''JWT_SECRET'' = Some b \<and>
      env p1 ''ANTHROPIC_API_KEY'' = Some c \<and>
      vitest_setup_module defineProperty p1 = Completed p2 \<and> env p2 = env p1"
proof -
  have once: "vitest_setup_module defineProperty q = Completed (log_ci q)"
    if "env q = env p" for q
    using assms unfolding that [symmetric]
    by (simp add: vitest_setup_module_def node_env_guard_def jwt_secret_guard_def
        anthropic_api_key_guard_def truthy_Some)
  have "vitest_setup_module defineProperty p = Completed (log_ci p)"
    by (rule once) simp
  moreover have "vitest_setup_module defineProperty (log_ci p) = Completed (log_ci (log_ci p))"
    by (rule once) (simp add: env_log_ci)
  ultimately show ?thesis
    using assms by (simp add: env_log_ci)
qed

text \<open>
  The three variables set to \<open>''production''\<close>, \<open>''s3cret''\<close> and \<open>''sk-ant''\<close>, on
  Node's \<^verbatim>\<open>process.env\<close>.
\<close>

theorem vitest_setup_module_keeps_set_variables_witness:
  "env \<lparr>env = [''NODE_ENV'' \<mapsto> ''production'', ''JWT_SECRET'' \<mapsto> ''s3cret'',
                ''ANTHROPIC_API_KEY'' \<mapsto> ''sk-ant''], console = []\<rparr> ''NODE_ENV''
     = Some ''production'' \<and> ''production'' \<noteq> [] \<and>
   env \<lparr>env = [''NODE_ENV'' \<mapsto> ''production'', ''JWT_SECRET'' \<mapsto> ''s3cret'',
                ''ANTHROPIC_API_KEY'' \<mapsto> ''sk-ant''], console = []\<rparr> ''JWT_SECRET''
     = Some ''s3cret'' \<and> ''s3cret'' \<noteq> [] \<and>
   env \<lparr>env = [''NODE_ENV'' \<mapsto> ''production'', ''JWT_SECRET'' \<mapsto> ''s3cret'',
                ''ANTHROPIC_API_KEY'' \<mapsto> ''sk-ant''], console = []\<rparr> ''ANTHROPIC_API_KEY''
     = Some ''sk-ant'' \<and> ''sk-ant'' \<noteq> [] \<and>
   (\<exists>p1 p2.
      vitest_setup_module node_env_defineProperty
        \<lparr>env = [''NODE_ENV'' \<mapsto> ''production'', ''JWT_SECRET'' \<mapsto> ''s3cret'',
                ''ANTHROPIC_API_KEY'' \<mapsto> ''sk-ant''], console = []\<rparr> = Completed p1 \<and>
      env p1 ''NODE_ENV'' = Some ''production'' \<and> env p1 ''JWT_SECRET'' = Some ''s3cret'' \<and>
      env p1 ''ANTHROPIC_API_KEY'' = Some ''sk-ant'' \<and>
      vitest_setup_module node_env_defineProperty p1 = Completed p2 \<and> env p2 = env p1)"
proof -
  let ?p = "\<lparr>env = [''NODE_ENV'' \<mapsto> ''production'', ''JWT_SECRET'' \<mapsto> ''s3cret'',
                ''ANTHROPIC_API_KEY'' \<mapsto> ''sk-ant''], console = []\<rparr>"
  have "\<exists>p1 p2.
      vitest_setup_module node_env_defineProperty ?p = Completed p1 \<and> env p1 = env ?p \<and>
      env p1 ''NODE_ENV'' = Some ''production'' \<and> env p1 ''JWT_SECRET'' = Some ''s3cret'' \<and>
      env p1 ''ANTHROPIC_API_KEY'' = Some ''sk-ant'' \<and>
      vitest_setup_module node_env_defineProperty p1 = Completed p2 \<and> env p2 = env p1"
    by (rule vitest_setup_module_keeps_set_variables) simp_all
  then obtain p1 p2 where
    "vitest_setup_module node_env_defineProperty ?p = Completed p1"
    "env p1 ''NODE_ENV'' = Some ''production''" "env p1 ''JWT_SECRET'' = Some ''s3cret''"
    "env p1 ''ANTHROPIC_API_KEY'' = Some ''sk-ant''"
    "vitest_setup_module node_env_defineProperty p1 = Completed p2" "env p2 = env p1"
    by blast
  then show ?thesis
    by (intro conjI exI [of _ p1] exI [of _ p2]) simp_all
qed

text \<open>
  Beyond the three variables being set: whenever a first load has run to its end and
  left \<^verbatim>\<open>NODE_ENV\<close> non-empty, a second load leaves the environment as the first left
  it. (It may print the CI line once more.)
\<close>

lemma vitest_setup_module_idempotent:
  assumes "vitest_setup_module defineProperty p = Completed p1"
    and "truthy (env p1 ''NODE_ENV'')"
  shows "\<exists>p2. vitest_setup_module defineProperty p1 = Completed p2 \<and> env p2 = env p1"
proof -
  obtain e where e: "node_env_guard defineProperty (env p) = Inr e"
    and p1: "p1 = log_ci (p\<lparr>env := anthropic_api_key_guard (jwt_secret_guard e)\<rparr>)"
    using assms(1) by (auto simp: vitest_setup_module_def split: sum.splits)
  have jwt: "truthy (env p1 ''JWT_SECRET'')"
    by (simp add: p1 env_log_ci anthropic_api_key_guard_def jwt_secret_guard_def truthy_Some)
  have key: "anthropic_api_key_guard (env p1) = env p1"
    by (auto simp: p1 env_log_ci anthropic_api_key_guard_def truthy_iff)
  have "vitest_setup_module defineProperty p1 = Completed (log_ci p1)"
    using assms(2) jwt key
    by (simp add: vitest_setup_module_def node_env_guard_def jwt_secret_guard_def)
  then show ?thesis by (simp add: env_log_ci)
qed

subsection \<open>The API key after a load\<close>

text \<open>
  C9: after \<^verbatim>\<open>src/vitest.setup.ts\<close> has been loaded (the load ran to its end),
  \<^verbatim>\<open>process.env.ANTHROPIC_API_KEY\<close> is a defined string, possibly the empty one, and never
  \<^verbatim>\<open>undefined\<close>; and calling the default export \<^verbatim>\<open>setup\<close> afterwards leaves the process,
  its environment included, as it is.
\<close>

theorem anthropic_api_key_defined_after_load:
  assumes "vitest_setup_module defineProperty p = Completed p'"
  shows "(\<exists>v. env p' ''ANTHROPIC_API_KEY'' = Some v) \<and> default_setup p' = p'"
  using assms
  by (auto simp: vitest_setup_module_def anthropic_api_key_guard_def env_log_ci truthy_iff
      default_setup_def split: sum.splits if_splits)

text \<open>
  From the empty environment, on an ordinary object: the load completes and the key is
  the empty string.
\<close>

theorem anthropic_api_key_defined_after_load_witness:
  "vitest_setup_module ordinary_defineProperty \<lparr>env = Map.empty, console = []\<rparr>
     = Completed \<lparr>env = [''NODE_ENV'' \<mapsto> ''test'',
                          ''JWT_SECRET'' \<mapsto> ''test-secret-key-for-testing'',
                          ''ANTHROPIC_API_KEY'' \<mapsto> ''''], console = []\<rparr> \<and>
   (\<exists>v. env \<lparr>env = [''NODE_ENV'' \<mapsto> ''test'',
                     ''JWT_SECRET'' \<mapsto> ''test-secret-key-for-testing'',
                     ''ANTHROPIC_API_KEY'' \<mapsto> ''''], console = []\<rparr> ''ANTHROPIC_API_KEY''
        = Some v)"
proof -
  have load: "vitest_setup_module ordinary_defineProperty \<lparr>env = Map.empty, console = []\<rparr>
     = Completed \<lparr>env = [''NODE_ENV'' \<mapsto> ''test'',
                          ''JWT_SECRET'' \<mapsto> ''test-secret-key-for-testing'',
                          ''ANTHROPIC_API_KEY'' \<mapsto> ''''], console = []\<rparr>"
    by (simp add: vitest_setup_module_def node_env_guard_def node_env_descriptor_def
        ordinary_defineProperty_def jwt_secret_guard_def anthropic_api_key_guard_def
        log_ci_def truthy_def)
  from anthropic_api_key_defined_after_load [OF load] load show ?thesis
    by blast
qed

subsection \<open>The current module against its predecessor\<close>

text \<open>
  The descriptor of line 8 states \<^verbatim>\<open>value\<close> and \<^verbatim>\<open>writable\<close> only, so Node's
  \<^verbatim>\<open>process.env\<close> rejects it: wherever \<^verbatim>\<open>NODE_ENV\<close> is unset or empty, the load throws at
  line 8 and assigns nothing. The predecessor always runs to its end and sets the
  variables.
\<close>

lemma node_env_defineProperty_rejects:
  "node_env_defineProperty e ''NODE_ENV'' node_env_descriptor = Inl TypeError"
  by (simp add: node_env_defineProperty_def node_env_descriptor_def)

lemma vitest_setup_module_throws_on_node:
  "\<not> truthy (env p ''NODE_ENV'') \<Longrightarrow>
   vitest_setup_module node_env_defineProperty p = Threw TypeError p"
  by (simp add: vitest_setup_module_def node_env_guard_def node_env_defineProperty_rejects)

lemma part_001_module_sets:
  "\<exists>q. part_001_module p = Completed q \<and> env q ''NODE_ENV'' = Some ''test'' \<and>
       env q ''JWT_SECRET'' = Some ''test-secret-key-for-testing'' \<and>
       (\<exists>v. env q ''ANTHROPIC_API_KEY'' = Some v)"
  by (auto simp: part_001_module_def env_log_ci anthropic_api_key_guard_def truthy_iff)

text \<open>
  On a host whose definition stores the value, as an assignment would, the two modules
  do the same from an environment with the three variables unset; on an ordinary object
  this is the case.
\<close>

lemma modules_agree_when_definition_stores:
  assumes "\<not> truthy (env p ''NODE_ENV'')"
    and "env p ''JWT_SECRET'' = None" and "env p ''ANTHROPIC_API_KEY'' = None"
    and "defineProperty (env p) ''NODE_ENV'' node_env_descriptor
           = Inr ((env p)(''NODE_ENV'' \<mapsto> ''test''))"
  shows "vitest_setup_module defineProperty p = part_001_module p"
  using assms
  by (simp add: vitest_setup_module_def part_001_module_def node_env_guard_def
      jwt_secret_guard_def anthropic_api_key_guard_def truthy_None)

lemma modules_agree_on_ordinary_object:
  "vitest_setup_module ordinary_defineProperty \<lparr>env = Map.empty, console = []\<rparr>
     = part_001_module \<lparr>env = Map.empty, console = []\<rparr>"
  by (rule modules_agree_when_definition_stores)
     (simp_all add: truthy_None ordinary_defineProperty_def node_env_descriptor_def)


text \<open>
  Loaded outside Vitest with \<^verbatim>\<open>NODE_ENV\<close> unset, for instance from the empty environment
  on Node's \<^verbatim>\<open>process.env\<close>, the current module throws at line 8 and leaves the
  environment empty, while the predecessor completes.
\<close>

lemma vitest_setup_module_throws_when_unset:
  "vitest_setup_module node_env_defineProperty \<lparr>env = Map.empty, console = []\<rparr>
     = Threw TypeError \<lparr>env = Map.empty, console = []\<rparr> \<and>
   part_001_module \<lparr>env = Map.empty, console = []\<rparr>
     = Completed \<lparr>env = [''NODE_ENV'' \<mapsto> ''test'',
                          ''JWT_SECRET'' \<mapsto> ''test-secret-key-for-testing'',
                          ''ANTHROPIC_API_KEY'' \<mapsto> ''''], console = []\<rparr>"
  by (simp add: vitest_setup_module_def part_001_module_def node_env_guard_def
      node_env_defineProperty_def node_env_descriptor_def
      anthropic_api_key_guard_def log_ci_def truthy_def)

subsection \<open>The two modules as Vitest loads them\<close>





section \<open>Properties of path normalisation\<close>

subsection \<open>Collapsing slashes\<close>

lemma collapse_Nil_iff [simp]: "collapse_slashes xs = [] \<longleftrightarrow> xs = []"
  by (induction xs rule: collapse_slashes.induct) auto

lemma hd_collapse: "xs \<noteq> [] \<Longrightarrow> hd (collapse_slashes xs) = hd xs"
  by (induction xs rule: collapse_slashes.induct) auto

lemma single_collapse: "single_slashes (collapse_slashes xs)"
proof (induction xs rule: collapse_slashes.induct)
  case (1 a b cs)
  then show ?case
    by (cases "collapse_slashes (b # cs)") (use hd_collapse [of "b # cs"] in auto)
qed simp_all

lemma collapse_fixed: "single_slashes xs \<Longrightarrow> collapse_slashes xs = xs"
  by (induction xs rule: collapse_slashes.induct) auto

lemma single_butlast: "single_slashes xs \<Longrightarrow> single_slashes (butlast xs)"
proof (induction xs rule: single_slashes.induct)
  case (1 a b cs)
  then show ?case by (cases cs) auto
qed simp_all

subsection \<open>The leading and the trailing slash\<close>

lemma ensure_leading_slash_hd:
  "ensure_leading_slash p \<noteq> [] \<and> hd (ensure_leading_slash p) = CHR ''/''"
  by (simp add: ensure_leading_slash_def)

lemma ensure_leading_slash_fixed:
  "p \<noteq> [] \<Longrightarrow> hd p = CHR ''/'' \<Longrightarrow> ensure_leading_slash p = p"
  by (simp add: ensure_leading_slash_def)

lemma strip_trailing_slash_hd:
  "p \<noteq> [] \<Longrightarrow> hd p = CHR ''/'' \<Longrightarrow>
   strip_trailing_slash p \<noteq> [] \<and> hd (strip_trailing_slash p) = CHR ''/''"
  by (cases p rule: rev_cases; cases "butlast p")
     (auto simp: strip_trailing_slash_def hd_append)

lemma single_strip: "single_slashes p \<Longrightarrow> single_slashes (strip_trailing_slash p)"
  by (simp add: strip_trailing_slash_def single_butlast)

text \<open>
  Where no two slashes are adjacent, stripping the trailing slash leaves a path that
  does not end in a slash, unless it is the root.
\<close>

lemma strip_trailing_slash_last:
  assumes "single_slashes r" and "r \<noteq> []"
  shows "strip_trailing_slash r = ''/'' \<or> last (strip_trailing_slash r) \<noteq> CHR ''/''"
proof (cases r rule: rev_cases)
  case Nil
  with assms show ?thesis by simp
next
  case (snoc ys y)
  show ?thesis
  proof (cases ys rule: rev_cases)
    case Nil
    with snoc show ?thesis by (simp add: strip_trailing_slash_def)
  next
    case (snoc zs z)
    with \<open>r = ys @ [y]\<close> have r: "r = zs @ [z, y]" by simp
    have "\<not> (z = CHR ''/'' \<and> y = CHR ''/'')"
      using assms(1) unfolding r by (induction zs rule: single_slashes.induct) auto
    then show ?thesis
      by (auto simp: r strip_trailing_slash_def butlast_append)
  qed
qed

lemma strip_trailing_slash_fixed:
  "p = ''/'' \<or> last p \<noteq> CHR ''/'' \<Longrightarrow> strip_trailing_slash p = p"
  by (auto simp: strip_trailing_slash_def)

subsection \<open>Normal forms\<close>

text \<open>
  Every result of the normalisation is a path as section 3 of the specification wants
  it, and the normalisation leaves such a path as it is.
\<close>

lemma normalized_normalize_path: "normalized (normalize_path p)"
proof -
  let ?c = "collapse_slashes (ensure_leading_slash p)"
  have c: "?c \<noteq> []" "hd ?c = CHR ''/''" "single_slashes ?c"
    using ensure_leading_slash_hd [of p] by (simp_all add: hd_collapse single_collapse)
  show ?thesis
    unfolding normalized_def normalize_path_def
    using strip_trailing_slash_hd [OF c(1,2)] single_strip [OF c(3)]
      strip_trailing_slash_last [OF c(3,1)]
    by simp
qed

lemma normalize_path_fixed: "normalized p \<Longrightarrow> normalize_path p = p"
  by (simp add: normalized_def normalize_path_def ensure_leading_slash_fixed collapse_fixed
      strip_trailing_slash_fixed)

lemma normalized_iff_fixed: "normalized p \<longleftrightarrow> normalize_path p = p"
  using normalized_normalize_path [of p] normalize_path_fixed [of p] by auto

text \<open>
  C1: for every input path \<open>p\<close>, the VFS path normalisation is idempotent:
  \<open>normalize (normalize p) = normalize p\<close>.
\<close>

theorem normalize_path_idempotent:
  "normalize_path (normalize_path p) = normalize_path p"
  by (rule normalize_path_fixed) (rule normalized_normalize_path)

text \<open>
  Some normal forms.
\<close>

lemma normalize_path_examples:
  "normalize_path '''' = ''/''" "normalize_path ''//'' = ''/''"
  "normalize_path ''a//'' = ''/a''" "normalize_path ''//a///b/'' = ''/a/b''"
  by (simp_all add: normalize_path_def ensure_leading_slash_def strip_trailing_slash_def)

end
